theory Spec2Isabelle
  imports Complex_Main "HOL-Library.Sublist"
begin

section \<open>JavaScript numbers\<close>

text \<open>
  A JavaScript number is an IEEE 754 binary64 value. The finite ones are kept as the
  rational they denote; the two zeros are one value here, since the program tells them
  apart nowhere (both are falsy, and neither is ever a marker position or a stored
  capacity other than \<open>0\<close>).
\<close>

datatype jsnum = NaN | PInf | NInf | Fin rat

fun truthy :: "jsnum \<Rightarrow> bool" where
  "truthy NaN = False"
| "truthy (Fin q) = (q \<noteq> 0)"
| "truthy PInf = True"
| "truthy NInf = True"

fun is_finite :: "jsnum \<Rightarrow> bool" where
  "is_finite (Fin q) = True"
| "is_finite x = False"

text \<open>Length of the binary representation of a positive integer (\<open>0\<close> otherwise).\<close>

function bitlen :: "int \<Rightarrow> int" where
  "bitlen n = (if n \<le> 0 then 0 else 1 + bitlen (n div 2))"
  by pat_completeness auto
termination
  by (relation "measure nat") auto

declare bitlen.simps [simp del]

text \<open>\<open>pow2_le k a b\<close> is \<open>2 ^ k * b \<le> a\<close> for an integer exponent \<open>k\<close>.\<close>

definition pow2_le :: "int \<Rightarrow> int \<Rightarrow> int \<Rightarrow> bool" where
  "pow2_le k a b = (if 0 \<le> k then b * 2 ^ nat k \<le> a else b \<le> a * 2 ^ nat (- k))"

text \<open>The binary exponent \<open>e\<close> of \<open>a / b\<close>: \<open>2 ^ e \<le> a / b < 2 ^ (e + 1)\<close>.\<close>

definition binexp :: "int \<Rightarrow> int \<Rightarrow> int" where
  "binexp a b = (let k = bitlen a - bitlen b in if pow2_le k a b then k else k - 1)"

definition round_half_even :: "int \<Rightarrow> int \<Rightarrow> int" where
  "round_half_even num den =
     (let n0 = num div den; r = num mod den
      in if 2 * r < den then n0
         else if den < 2 * r then n0 + 1
         else if even n0 then n0 else n0 + 1)"

text \<open>
  The Number value of the non-negative rational \<open>a / b\<close> (\<open>0 \<le> a\<close>, \<open>0 < b\<close>) with
  the sign \<open>neg\<close>: round to nearest, ties to even, 53 significant bits, least exponent
  \<open>-1074\<close>; a result of magnitude \<open>2 ^ 1024\<close> is an infinity.
\<close>

definition toDouble :: "bool \<Rightarrow> int \<Rightarrow> int \<Rightarrow> jsnum" where
  "toDouble neg a b =
     (if a \<le> 0 then Fin 0
      else
        let ex = max (binexp a b) (- 1022) - 52;
            n = (if ex \<le> 0 then round_half_even (a * 2 ^ nat (- ex)) b
                 else round_half_even a (b * 2 ^ nat ex));
            v = (if ex \<le> 0 then rat_of_int n / 2 ^ nat (- ex) else rat_of_int n * 2 ^ nat ex)
        in if 2 ^ 1024 \<le> v then (if neg then NInf else PInf)
           else Fin (if neg then - v else v))"

text \<open>Addition of two numbers, as \<open>+\<close> computes it.\<close>

fun jsadd :: "jsnum \<Rightarrow> jsnum \<Rightarrow> jsnum" where
  "jsadd NaN y = NaN"
| "jsadd x NaN = NaN"
| "jsadd PInf NInf = NaN"
| "jsadd NInf PInf = NaN"
| "jsadd PInf y = PInf"
| "jsadd NInf y = NInf"
| "jsadd x PInf = PInf"
| "jsadd x NInf = NInf"
| "jsadd (Fin p) (Fin q) =
     (case quotient_of (p + q) of (a, b) \<Rightarrow> toDouble (a < 0) \<bar>a\<bar> b)"

text \<open>A numeric literal of the source, \<open>a / b\<close> in decimal, with its sign.\<close>

definition literal :: "bool \<Rightarrow> int \<Rightarrow> int \<Rightarrow> jsnum" where
  "literal neg a b = toDouble neg a b"

section \<open>Strings to numbers\<close>

text \<open>
  Strings are sequences of code units below 256. White space is what \<open>TrimString\<close>
  strips among them: TAB, LF, VT, FF, CR, SP and NBSP.
\<close>

definition is_ws :: "char \<Rightarrow> bool" where
  "is_ws c = (of_char c \<in> {9::nat, 10, 11, 12, 13, 32, 160})"

definition is_digit :: "char \<Rightarrow> bool" where
  "is_digit c = (48 \<le> (of_char c :: nat) \<and> (of_char c :: nat) \<le> 57)"

definition is_hex_digit :: "char \<Rightarrow> bool" where
  "is_hex_digit c =
     (is_digit c \<or> (65 \<le> (of_char c :: nat) \<and> (of_char c :: nat) \<le> 70)
        \<or> (97 \<le> (of_char c :: nat) \<and> (of_char c :: nat) \<le> 102))"

definition digit_val :: "char \<Rightarrow> int" where
  "digit_val c =
     (let n = (of_char c :: int)
      in if n \<le> 57 then n - 48 else if n \<le> 70 then n - 55 else n - 87)"

definition digits_val :: "int \<Rightarrow> string \<Rightarrow> int" where
  "digits_val radix ds = foldl (\<lambda>acc c. acc * radix + digit_val c) 0 ds"

definition split_sign :: "string \<Rightarrow> bool \<times> string" where
  "split_sign t =
     (case t of
        [] \<Rightarrow> (False, [])
      | c # r \<Rightarrow> if c = CHR ''-'' then (True, r) else if c = CHR ''+'' then (False, r)
                 else (False, t))"

text \<open>The value of an \<open>ExponentPart\<close> at the head of the string, \<open>0\<close> when there is none.\<close>

definition exponent_part :: "string \<Rightarrow> int" where
  "exponent_part r =
     (case r of
        [] \<Rightarrow> 0
      | c # r' \<Rightarrow>
          if c = CHR ''e'' \<or> c = CHR ''E'' then
            (case split_sign r' of
               (eneg, r'') \<Rightarrow>
                 let ds = takeWhile is_digit r''
                 in if ds = [] then 0
                    else if eneg then - digits_val 10 ds else digits_val 10 ds)
          else 0)"

text \<open>
  \<open>parseFloat\<close>: the longest prefix of the trimmed string that is a
  \<open>StrDecimalLiteral\<close>, as a Number; \<open>NaN\<close> when no prefix is one.
\<close>

definition parseFloat :: "string \<Rightarrow> jsnum" where
  "parseFloat s =
     (case split_sign (dropWhile is_ws s) of
        (neg, u) \<Rightarrow>
          if take 8 u = ''Infinity'' then (if neg then NInf else PInf)
          else
            let ip = takeWhile is_digit u;
                r1 = dropWhile is_digit u;
                fp = (case r1 of [] \<Rightarrow> []
                      | c # r \<Rightarrow> if c = CHR ''.'' then takeWhile is_digit r else []);
                r2 = (case r1 of [] \<Rightarrow> []
                      | c # r \<Rightarrow> if c = CHR ''.'' then dropWhile is_digit r else r1)
            in if ip = [] \<and> fp = [] then NaN
               else
                 let m = digits_val 10 (ip @ fp);
                     d = exponent_part r2 - int (length fp)
                 in if 0 \<le> d then toDouble neg (m * 10 ^ nat d) 1
                    else toDouble neg m (10 ^ nat (- d)))"

text \<open>
  \<open>parseInt\<close> with no radix: radix 16 after a \<open>0x\<close> or \<open>0X\<close> prefix, radix 10
  otherwise; the longest prefix of digits of that radix, as a Number (the exact value
  rounded); \<open>NaN\<close> when there is no digit.
\<close>

definition parseInt :: "string \<Rightarrow> jsnum" where
  "parseInt s =
     (case split_sign (dropWhile is_ws s) of
        (neg, u) \<Rightarrow>
          if take 2 u = ''0x'' \<or> take 2 u = ''0X'' then
            (let ds = takeWhile is_hex_digit (drop 2 u)
             in if ds = [] then NaN else toDouble neg (digits_val 16 ds) 1)
          else
            (let ds = takeWhile is_digit u
             in if ds = [] then NaN else toDouble neg (digits_val 10 ds) 1))"

text \<open>\<open>Number(x)\<close> for \<open>x\<close> a number or \<open>undefined\<close>.\<close>

fun Number :: "jsnum option \<Rightarrow> jsnum" where
  "Number None = NaN"
| "Number (Some x) = x"

text \<open>\<open>x || d\<close> on numbers, and on an optional string.\<close>

definition num_or :: "jsnum \<Rightarrow> jsnum \<Rightarrow> jsnum" where
  "num_or x d = (if truthy x then x else d)"

fun str_or :: "string option \<Rightarrow> string \<Rightarrow> string" where
  "str_or None d = d"
| "str_or (Some s) d = (if s = [] then d else s)"

section \<open>Types and constants\<close>

datatype TourismType = Wisata_Air | Wisata_Religi | Wisata_Alam

datatype DisasterRisk = Laka_Air | Banjir | Tanah_Longsor

record TouristSpot =
  id' :: string
  name :: string
  village :: string
  district :: string
  type' :: TourismType
  capacity :: jsnum
  risks :: "DisasterRisk list"
  latitude :: "string option"
  longitude :: "string option"

definition DISTRICTS :: "string list" where
  "DISTRICTS =
     [''Brati'', ''Gabus'', ''Geyer'', ''Godong'', ''Grobogan'',
      ''Gubug'', ''Karangrayung'', ''Kedungjati'', ''Klambu'', ''Kradenan'',
      ''Ngaringan'', ''Penawangan'', ''Pulokulon'', ''Purwodadi'',
      ''Tanggungharjo'', ''Tawangharjo'', ''Tegowanu'', ''Toroh'', ''Wirosari'']"

definition TOURISM_TYPES :: "TourismType list" where
  "TOURISM_TYPES = [Wisata_Alam, Wisata_Air, Wisata_Religi]"

definition RISK_TYPES :: "DisasterRisk list" where
  "RISK_TYPES = [Laka_Air, Banjir, Tanah_Longsor]"

section \<open>Dashboard aggregates\<close>

text \<open>The records the dashboard works on, for the selection \<open>selectedDistrict\<close>.\<close>

definition filteredSpots :: "string \<Rightarrow> TouristSpot list \<Rightarrow> TouristSpot list" where
  "filteredSpots selectedDistrict spots =
     (if selectedDistrict = ''Semua'' then spots
      else filter (\<lambda>s. district s = selectedDistrict) spots)"

definition totalCount :: "string \<Rightarrow> TouristSpot list \<Rightarrow> nat" where
  "totalCount selectedDistrict spots = length (filteredSpots selectedDistrict spots)"

definition totalCapacity :: "string \<Rightarrow> TouristSpot list \<Rightarrow> jsnum" where
  "totalCapacity selectedDistrict spots =
     foldl (\<lambda>acc curr. jsadd acc (capacity curr)) (Fin 0) (filteredSpots selectedDistrict spots)"

definition byType :: "string \<Rightarrow> TouristSpot list \<Rightarrow> (TourismType \<times> nat) list" where
  "byType selectedDistrict spots =
     map (\<lambda>t. (t, length (filter (\<lambda>s. type' s = t) (filteredSpots selectedDistrict spots))))
       TOURISM_TYPES"

definition displayDistricts :: "string \<Rightarrow> string list" where
  "displayDistricts selectedDistrict =
     (if selectedDistrict = ''Semua'' then DISTRICTS else [selectedDistrict])"

definition byDistrict :: "string \<Rightarrow> TouristSpot list \<Rightarrow> (string \<times> nat) list" where
  "byDistrict selectedDistrict spots =
     map (\<lambda>d. (d, length (filter (\<lambda>s. district s = d) (filteredSpots selectedDistrict spots))))
       (displayDistricts selectedDistrict)"

section \<open>The map component\<close>

datatype js_error = TypeError

text \<open>
  The table of district centres is an object literal: reading a property of it finds
  an own key, or else a property inherited from \<open>Object.prototype\<close>, whose values are
  functions (and, for \<open>__proto__\<close>, the prototype object itself).
\<close>

definition DISTRICT_COORDINATES :: "(string \<times> jsnum \<times> jsnum) list" where
  "DISTRICT_COORDINATES =
     [(''Brati'', literal True 70289 10000, literal False 1108654 10000),
      (''Gabus'', literal True 71643 10000, literal False 1110505 10000),
      (''Geyer'', literal True 72188 10000, literal False 1109009 10000),
      (''Godong'', literal True 70326 10000, literal False 1107107 10000),
      (''Grobogan'', literal True 69959 10000, literal False 1109329 10000),
      (''Gubug'', literal True 70604 10000, literal False 1106409 10000),
      (''Karangrayung'', literal True 71158 10000, literal False 1107483 10000),
      (''Kedungjati'', literal True 71654 10000, literal False 1106132 10000),
      (''Klambu'', literal True 70097 10000, literal False 1108351 10000),
      (''Kradenan'', literal True 71581 10000, literal False 1111378 10000),
      (''Ngaringan'', literal True 70543 10000, literal False 1111098 10000),
      (''Penawangan'', literal True 70818 10000, literal False 1108251 10000),
      (''Pulokulon'', literal True 71264 10000, literal False 1110028 10000),
      (''Purwodadi'', literal True 70867 10000, literal False 1109157 10000),
      (''Tanggungharjo'', literal True 70945 10000, literal False 1105835 10000),
      (''Tawangharjo'', literal True 70583 10000, literal False 1109856 10000),
      (''Tegowanu'', literal True 70645 10000, literal False 1105401 10000),
      (''Toroh'', literal True 71353 10000, literal False 1108927 10000),
      (''Wirosari'', literal True 70955 10000, literal False 1110660 10000)]"

definition Object_prototype :: "string list" where
  "Object_prototype =
     [''constructor'', ''hasOwnProperty'', ''isPrototypeOf'', ''propertyIsEnumerable'',
      ''toLocaleString'', ''toString'', ''valueOf'', ''__proto__'',
      ''__defineGetter__'', ''__defineSetter__'', ''__lookupGetter__'', ''__lookupSetter__'']"

datatype property = Undefined | Centre "jsnum \<times> jsnum" | Inherited

definition get_property :: "string \<Rightarrow> property" where
  "get_property k =
     (case map_of DISTRICT_COORDINATES k of
        Some c \<Rightarrow> Centre c
      | None \<Rightarrow> if k \<in> set Object_prototype then Inherited else Undefined)"

text \<open>The final test \<open>if (lat && lng)\<close>: a position, or no marker.\<close>

definition place :: "jsnum \<Rightarrow> jsnum \<Rightarrow> (jsnum \<times> jsnum) option" where
  "place lat lng = (if truthy lat \<and> truthy lng then Some (lat, lng) else None)"

text \<open>
  The position of a record's marker, as the body of the loop over \<open>spots\<close> computes it.
  \<open>undefined\<close> is falsy; a centre (an array) and an inherited property are truthy; the
  destructuring assignment \<open>[lat, lng] = ...\<close> iterates its right-hand side and raises
  \<open>TypeError\<close> on a value that is not iterable, as the inherited ones are.
\<close>

definition markerPosition :: "TouristSpot \<Rightarrow> js_error + (jsnum \<times> jsnum) option" where
  "markerPosition spot =
     (let lat = parseFloat (str_or (latitude spot) ''0'');
          lng = parseFloat (str_or (longitude spot) ''0'')
      in if \<not> truthy lat \<or> \<not> truthy lng then
           (case get_property (district spot) of
              Undefined \<Rightarrow> Inr (place lat lng)
            | Centre c \<Rightarrow> Inr (place (fst c) (snd c))
            | Inherited \<Rightarrow> Inl TypeError)
         else Inr (place lat lng))"

datatype color = green | blue | violet

definition markerColor :: "TouristSpot \<Rightarrow> color" where
  "markerColor spot =
     (if type' spot = Wisata_Alam then green
      else if type' spot = Wisata_Air then blue else violet)"

text \<open>
  A marker on the map: the identifier Leaflet stamps on a layer when it is added, the
  position, and the three fields of the record that its popup shows.
\<close>

record marker =
  leaflet_id :: nat
  latlng :: "jsnum \<times> jsnum"
  popup :: "string \<times> string \<times> TourismType"

text \<open>
  The view of the map: a centre and a zoom, or the bounds of a group of positions
  (with the padding \<open>[50, 50]\<close>).
\<close>

datatype viewport = setView "jsnum \<times> jsnum" nat | fitBounds "(jsnum \<times> jsnum) list"

definition defaultView :: viewport where
  "defaultView = setView (literal True 70867 10000, literal False 1109157 10000) 10"

record leaflet_map =
  tileLayers :: "string list"
  layers :: "marker list"
  view :: viewport

text \<open>
  The state of the component: its two references that outlive a render, and Leaflet's
  counter of stamped objects.
\<close>

record MapComponent =
  mapInstanceRef :: "leaflet_map option"
  markersRef :: "marker list"
  lastId :: nat

definition initialMapComponent :: MapComponent where
  "initialMapComponent = \<lparr>mapInstanceRef = None, markersRef = [], lastId = 0\<rparr>"

text \<open>
  The first effect, run once after the first render, and its cleanup. \<open>window_L\<close> says
  whether the Leaflet library is loaded; \<open>mapRef.current\<close> is the element that the
  component renders, which is there whenever an effect runs.
\<close>

definition mount :: "bool \<Rightarrow> MapComponent \<Rightarrow> MapComponent" where
  "mount window_L s =
     (if mapInstanceRef s = None \<and> window_L then
        s\<lparr>mapInstanceRef :=
            Some \<lparr>tileLayers = [''https://{s}.tile.openstreetmap.org/{z}/{x}/{y}.png''],
                  layers = [], view = defaultView\<rparr>\<rparr>
      else s)"

definition cleanup :: "MapComponent \<Rightarrow> MapComponent" where
  "cleanup s = s\<lparr>mapInstanceRef := None\<rparr>"

text \<open>\<open>marker.remove()\<close>: the marker leaves the map it is on.\<close>

definition marker_remove :: "marker \<Rightarrow> MapComponent \<Rightarrow> MapComponent" where
  "marker_remove m s =
     s\<lparr>mapInstanceRef :=
         map_option (\<lambda>mp. mp\<lparr>layers := filter (\<lambda>x. leaflet_id x \<noteq> leaflet_id m) (layers mp)\<rparr>)
           (mapInstanceRef s)\<rparr>"

text \<open>\<open>L.marker(...).addTo(map).bindPopup(...)\<close>, then the push onto \<open>markersRef\<close>.\<close>

definition add_marker :: "TouristSpot \<Rightarrow> jsnum \<times> jsnum \<Rightarrow> MapComponent \<Rightarrow> MapComponent" where
  "add_marker spot p s =
     (let m = \<lparr>leaflet_id = Suc (lastId s), latlng = p,
                popup = (name spot, district spot, type' spot)\<rparr>
      in s\<lparr>mapInstanceRef := map_option (\<lambda>mp. mp\<lparr>layers := layers mp @ [m]\<rparr>) (mapInstanceRef s),
           markersRef := markersRef s @ [m],
           lastId := Suc (lastId s)\<rparr>)"

text \<open>The loop over \<open>spots\<close>; an exception ends it, and what was done stays done.\<close>

fun add_markers :: "TouristSpot list \<Rightarrow> MapComponent \<Rightarrow> js_error option \<times> MapComponent" where
  "add_markers [] s = (None, s)"
| "add_markers (spot # rest) s =
     (case markerPosition spot of
        Inl e \<Rightarrow> (Some e, s)
      | Inr None \<Rightarrow> add_markers rest s
      | Inr (Some p) \<Rightarrow> add_markers rest (add_marker spot p s))"

definition update_view :: "MapComponent \<Rightarrow> MapComponent" where
  "update_view s =
     s\<lparr>mapInstanceRef :=
         map_option
           (\<lambda>mp. mp\<lparr>view := (if length (markersRef s) > 0 then fitBounds (map latlng (markersRef s))
                              else defaultView)\<rparr>)
           (mapInstanceRef s)\<rparr>"

text \<open>The second effect, run after every render in which \<open>spots\<close> changed.\<close>

definition sync :: "bool \<Rightarrow> TouristSpot list \<Rightarrow> MapComponent \<Rightarrow> js_error option \<times> MapComponent" where
  "sync window_L spots s =
     (if mapInstanceRef s \<noteq> None \<and> window_L then
        (let s1 = foldl (\<lambda>t m. marker_remove m t) s (markersRef s);
             s2 = s1\<lparr>markersRef := []\<rparr>
         in case add_markers spots s2 of
              (Some e, s3) \<Rightarrow> (Some e, s3)
            | (None, s3) \<Rightarrow> (None, update_view s3))
      else (None, s))"

section \<open>The record store and the form\<close>

datatype tab = dashboard | input

text \<open>
  The state of \<open>App\<close>, with the messages shown by \<open>alert\<close> so far (latest last).
\<close>

record app =
  spots :: "TouristSpot list"
  activeTab :: tab
  alerts :: "string list"

definition addSpot :: "TouristSpot \<Rightarrow> app \<Rightarrow> app" where
  "addSpot spot a = a\<lparr>spots := spot # spots a, activeTab := dashboard\<rparr>"

text \<open>\<open>confirmed\<close> is the answer to the confirmation dialog.\<close>

definition deleteSpot :: "bool \<Rightarrow> string \<Rightarrow> app \<Rightarrow> app" where
  "deleteSpot confirmed i a =
     (if confirmed then a\<lparr>spots := filter (\<lambda>s. id' s \<noteq> i) (spots a)\<rparr> else a)"

text \<open>The form's state, a partial record: every field may be undefined.\<close>

record formData =
  form_name :: "string option"
  form_village :: "string option"
  form_district :: "string option"
  form_type :: "TourismType option"
  form_capacity :: "jsnum option"
  form_risks :: "DisasterRisk list option"
  form_latitude :: "string option"
  form_longitude :: "string option"

definition initialFormData :: formData where
  "initialFormData =
     \<lparr>form_name = Some [], form_village = Some [], form_district = Some (DISTRICTS ! 0),
      form_type = Some Wisata_Alam, form_capacity = Some (Fin 0), form_risks = Some [],
      form_latitude = Some [], form_longitude = Some []\<rparr>"


text \<open>
  Decimal digits of a natural number, as \<open>toString\<close> prints an integer below
  \<open>10 ^ 21\<close>, as every time of \<open>Date.now()\<close> is.
\<close>

fun toString :: "nat \<Rightarrow> string" where
  "toString n =
     (if n < 10 then [char_of (48 + n)] else toString (n div 10) @ [char_of (48 + n mod 10)])"

declare toString.simps [simp del]

definition newSpot :: "nat \<Rightarrow> string \<Rightarrow> string \<Rightarrow> formData \<Rightarrow> TouristSpot" where
  "newSpot now n v fd =
     \<lparr>id' = toString now,
      name = n,
      village = v,
      district = str_or (form_district fd) (DISTRICTS ! 0),
      type' = (case form_type fd of None \<Rightarrow> Wisata_Alam | Some t \<Rightarrow> t),
      capacity = num_or (Number (form_capacity fd)) (Fin 0),
      risks = (case form_risks fd of None \<Rightarrow> [] | Some r \<Rightarrow> r),
      latitude = form_latitude fd,
      longitude = form_longitude fd\<rparr>"

definition alert :: "string \<Rightarrow> app \<Rightarrow> app" where
  "alert msg a = a\<lparr>alerts := alerts a @ [msg]\<rparr>"

text \<open>
  \<open>handleSubmit\<close> at the time \<open>now\<close> (milliseconds, from \<open>Date.now()\<close>): the new form
  state and the new state of \<open>App\<close>. The guard \<open>!formData.name || !formData.village\<close>
  holds when a field is undefined or the empty string; past it, \<open>n\<close> and \<open>v\<close> are the
  two fields.
\<close>

definition handleSubmit :: "nat \<Rightarrow> formData \<Rightarrow> app \<Rightarrow> formData \<times> app" where
  "handleSubmit now fd a =
     (case (form_name fd, form_village fd) of
        (Some n, Some v) \<Rightarrow>
          if n = [] \<or> v = [] then (fd, alert ''Mohon lengkapi nama dan lokasi desa.'' a)
          else (initialFormData,
                alert ''Data berhasil disimpan!'' (addSpot (newSpot now n v fd) a))
      | _ \<Rightarrow> (fd, alert ''Mohon lengkapi nama dan lokasi desa.'' a))"

section \<open>What the map shows\<close>

text \<open>The markers on the map, none when there is no map, and the view of the map.\<close>

definition on_surface :: "MapComponent \<Rightarrow> marker list" where
  "on_surface s = (case mapInstanceRef s of None \<Rightarrow> [] | Some mp \<Rightarrow> layers mp)"

definition current_view :: "MapComponent \<Rightarrow> viewport option" where
  "current_view s = map_option view (mapInstanceRef s)"

text \<open>
  The states the component can be in: every marker on the map is one of \<open>markersRef\<close>,
  and no marker of \<open>markersRef\<close> has an identifier beyond Leaflet's counter.
\<close>

definition component_inv :: "MapComponent \<Rightarrow> bool" where
  "component_inv s =
     ((\<forall>m\<in>set (on_surface s). leaflet_id m \<in> leaflet_id ` set (markersRef s)) \<and>
      (\<forall>m\<in>set (markersRef s). leaflet_id m \<le> lastId s))"

text \<open>
  What a marker shows, and what the markers derived from a list of records show: for
  each record with a position, that position and the record's popup, in the order of
  the list.
\<close>

definition shown :: "marker \<Rightarrow> (jsnum \<times> jsnum) \<times> string \<times> string \<times> TourismType" where
  "shown m = (latlng m, popup m)"

definition derive :: "TouristSpot \<Rightarrow> ((jsnum \<times> jsnum) \<times> string \<times> string \<times> TourismType) option" where
  "derive spot =
     (case markerPosition spot of
        Inr (Some p) \<Rightarrow> Some (p, name spot, district spot, type' spot)
      | _ \<Rightarrow> None)"

definition derived_markers ::
    "TouristSpot list \<Rightarrow> ((jsnum \<times> jsnum) \<times> string \<times> string \<times> TourismType) list" where
  "derived_markers xs = List.map_filter derive xs"

text \<open>
  The markers one run of the loop creates when Leaflet's counter is \<open>k\<close>, and the
  exception it ends with, if any.
\<close>

fun created :: "nat \<Rightarrow> TouristSpot list \<Rightarrow> marker list" where
  "created k [] = []"
| "created k (spot # rest) =
     (case markerPosition spot of
        Inl e \<Rightarrow> []
      | Inr None \<Rightarrow> created k rest
      | Inr (Some p) \<Rightarrow>
          \<lparr>leaflet_id = Suc k, latlng = p, popup = (name spot, district spot, type' spot)\<rparr>
            # created (Suc k) rest)"

fun raised :: "TouristSpot list \<Rightarrow> js_error option" where
  "raised [] = None"
| "raised (spot # rest) = (case markerPosition spot of Inl e \<Rightarrow> Some e | Inr p \<Rightarrow> raised rest)"

section \<open>The form as the browser submits it\<close>

text \<open>A form field is empty when it is undefined or the empty string.\<close>

definition empty_field :: "string option \<Rightarrow> bool" where
  "empty_field x = (x = None \<or> x = Some [])"

text \<open>A number that is a non-negative integer.\<close>

definition nonneg_integer :: "jsnum \<Rightarrow> bool" where
  "nonneg_integer x = (case x of Fin q \<Rightarrow> rat_of_int \<lfloor>q\<rfloor> = q \<and> 0 \<le> q | _ \<Rightarrow> False)"




section \<open>Sample data\<close>

definition sample_spot :: "string \<Rightarrow> string \<Rightarrow> TouristSpot" where
  "sample_spot i d =
     \<lparr>id' = i, name = ''Bledug Kuwu'', village = ''Kuwu'', district = d, type' = Wisata_Alam,
      capacity = Fin 500, risks = [], latitude = None, longitude = None\<rparr>"

definition sample_app :: "TouristSpot list \<Rightarrow> app" where
  "sample_app xs = \<lparr>spots = xs, activeTab = input, alerts = []\<rparr>"

definition sample_form :: "string \<Rightarrow> string \<Rightarrow> formData" where
  "sample_form n v = initialFormData\<lparr>form_name := Some n, form_village := Some v\<rparr>"

definition sample_spot_at :: "string \<Rightarrow> string \<Rightarrow> string \<Rightarrow> string \<Rightarrow> TouristSpot" where
  "sample_spot_at i d la lo = (sample_spot i d)\<lparr>latitude := Some la, longitude := Some lo\<rparr>"

definition mounted_component :: MapComponent where
  "mounted_component = mount True initialMapComponent"


section \<open>Properties of the numbers\<close>

lemma bitlen_nonneg: "0 \<le> bitlen a"
  by (induction a rule: bitlen.induct) (subst bitlen.simps, simp)

lemma bitlen_pos: "0 < a \<Longrightarrow> 0 < bitlen a"
  using bitlen_nonneg [of "a div 2"] by (subst bitlen.simps) simp

lemma bitlen_bounds:
  "0 < a \<Longrightarrow> 2 ^ nat (bitlen a - 1) \<le> a \<and> a < 2 ^ nat (bitlen a)"
proof (induction a rule: bitlen.induct)
  case (1 n)
  show ?case
  proof (cases "n = 1")
    case True
    have "bitlen 1 = 1"
      by (simp add: bitlen.simps [of 1] bitlen.simps [of 0])
    with True show ?thesis by simp
  next
    case False
    with "1.prems" have h: "0 < n div 2" by simp
    then have ih: "2 ^ nat (bitlen (n div 2) - 1) \<le> n div 2" "n div 2 < 2 ^ nat (bitlen (n div 2))"
      using "1.IH" "1.prems" by simp_all
    have b: "bitlen n = 1 + bitlen (n div 2)"
      using "1.prems" by (subst bitlen.simps) simp
    have p: "0 < bitlen (n div 2)"
      using h by (rule bitlen_pos)
    then have e: "nat (bitlen (n div 2)) = Suc (nat (bitlen (n div 2) - 1))"
      by simp
    have lo: "2 ^ nat (bitlen (n div 2)) \<le> n"
    proof -
      have "2 * 2 ^ nat (bitlen (n div 2) - 1) \<le> 2 * (n div 2)"
        using ih(1) by simp
      also have "\<dots> \<le> n" by simp
      finally show ?thesis by (subst e) simp
    qed
    have hi: "n < 2 ^ nat (1 + bitlen (n div 2))"
    proof -
      have "n < 2 * (n div 2 + 1)" by simp
      also have "\<dots> \<le> 2 * 2 ^ nat (bitlen (n div 2))"
        using ih(2) by simp
      also have "\<dots> = 2 ^ nat (1 + bitlen (n div 2))"
        using p by (simp add: nat_add_distrib)
      finally show ?thesis .
    qed
    from lo hi b show ?thesis by simp
  qed
qed

lemma binexp_lower:
  assumes "0 < a" "0 < b"
  shows "pow2_le (binexp a b) a b"
proof (cases "pow2_le (bitlen a - bitlen b) a b")
  case True
  then show ?thesis by (simp add: binexp_def)
next
  case False
  define la where "la = nat (bitlen a - 1)"
  define lb where "lb = nat (bitlen b)"
  have a: "2 ^ la \<le> a" and b: "b < 2 ^ lb"
    using bitlen_bounds [OF assms(1)] bitlen_bounds [OF assms(2)] by (simp_all add: la_def lb_def)
  have k: "bitlen a - bitlen b - 1 = int la - int lb"
    using bitlen_pos [OF assms(1)] bitlen_nonneg [of b] by (simp add: la_def lb_def)
  have "pow2_le (int la - int lb) a b"
  proof (cases "lb \<le> la")
    case True
    then have "b * 2 ^ (la - lb) \<le> 2 ^ lb * 2 ^ (la - lb)"
      using b by (simp add: mult_right_mono)
    also have "\<dots> = 2 ^ la"
      using True by (simp add: power_add [symmetric])
    finally show ?thesis
      using a True by (simp add: pow2_le_def nat_diff_distrib' of_nat_diff)
  next
    case False
    then have lt: "la < lb" by simp
    have "b \<le> 2 ^ lb" using b by simp
    also have "\<dots> = 2 ^ la * 2 ^ (lb - la)"
      using lt by (simp add: power_add [symmetric])
    also have "\<dots> \<le> a * 2 ^ (lb - la)"
      using a by (simp add: mult_right_mono)
    finally show ?thesis
      using lt by (simp add: pow2_le_def nat_diff_distrib' of_nat_diff)
  qed
  with False k show ?thesis by (simp add: binexp_def)
qed

lemma round_half_even_ge: "0 < den \<Longrightarrow> den \<le> num \<Longrightarrow> 1 \<le> round_half_even num den"
proof -
  assume d: "0 < den" and n: "den \<le> num"
  then have "0 < num div den"
    by (simp add: pos_imp_zdiv_pos_iff)
  then show ?thesis
    by (auto simp: round_half_even_def Let_def)
qed

lemma toDouble_truthy:
  assumes "0 < a" "0 < b" "b \<le> a * 2 ^ 1074"
  shows "truthy (toDouble neg a b)"
proof -
  define e where "e = binexp a b"
  define ex where "ex = max e (- 1022) - 52"
  define n where "n = (if ex \<le> 0 then round_half_even (a * 2 ^ nat (- ex)) b
                 else round_half_even a (b * 2 ^ nat ex))"
  define v where "v = (if ex \<le> 0 then rat_of_int n / 2 ^ nat (- ex) else rat_of_int n * 2 ^ nat ex)"
  have pl: "pow2_le e a b"
    unfolding e_def using assms(1,2) by (rule binexp_lower)
  have n1: "1 \<le> n"
  proof (cases "ex \<le> 0")
    case True
    have "b \<le> a * 2 ^ nat (- ex)"
    proof (cases "e < - 1022")
      case True
      then have "nat (- ex) = 1074" by (simp add: ex_def)
      with assms(3) show ?thesis by simp
    next
      case False
      then have x: "- ex = 52 - e" by (simp add: ex_def)
      show ?thesis
      proof (cases "0 \<le> e")
        case True
        with pl have "b * 2 ^ nat e \<le> a" by (simp add: pow2_le_def)
        moreover have "b * 1 \<le> b * 2 ^ nat e"
          using assms(2) by (intro mult_left_mono) simp_all
        moreover have "a * 1 \<le> a * 2 ^ nat (- ex)"
          using assms(1) by (intro mult_left_mono) simp_all
        ultimately show ?thesis by simp
      next
        case False
        with pl have "b \<le> a * 2 ^ nat (- e)" by (simp add: pow2_le_def)
        also have "\<dots> \<le> a * 2 ^ nat (- ex)"
          using assms(1) False x by (intro mult_left_mono power_increasing) simp_all
        finally show ?thesis .
      qed
    qed
    with True assms(2) show ?thesis
      by (simp add: n_def round_half_even_ge)
  next
    case False
    then have "0 \<le> e" "nat ex \<le> nat e" by (simp_all add: ex_def)
    with pl have "b * 2 ^ nat e \<le> a" by (simp add: pow2_le_def)
    moreover have "b * 2 ^ nat ex \<le> b * 2 ^ nat e"
      using assms(2) \<open>nat ex \<le> nat e\<close> by (intro mult_left_mono power_increasing) simp_all
    ultimately have "b * 2 ^ nat ex \<le> a" by simp
    with False assms(2) show ?thesis
      by (simp add: n_def round_half_even_ge)
  qed
  then have "0 < v"
    by (simp add: v_def)
  moreover have "toDouble neg a b = (if 2 ^ 1024 \<le> v then (if neg then NInf else PInf)
           else Fin (if neg then - v else v))"
    using assms(1) by (simp add: toDouble_def Let_def e_def ex_def n_def v_def)
  ultimately show ?thesis by simp
qed

lemma toDouble_not_NaN: "toDouble neg a b \<noteq> NaN"
  by (simp add: toDouble_def Let_def)

lemma round_half_even_nonneg: "0 \<le> num \<Longrightarrow> 0 < den \<Longrightarrow> 0 \<le> round_half_even num den"
  by (auto simp: round_half_even_def Let_def pos_imp_zdiv_nonneg_iff)

lemma round_half_even_1: "round_half_even num 1 = num"
  by (simp add: round_half_even_def)

lemma toDouble_integer:
  assumes "toDouble neg a 1 = Fin q"
  shows "q \<in> \<int>"
proof (cases "a \<le> 0")
  case True
  with assms show ?thesis by (simp add: toDouble_def)
next
  case False
  define ex where "ex = max (binexp a 1) (- 1022) - 52"
  show ?thesis
  proof (cases "ex \<le> 0")
    case True
    have "rat_of_int (a * 2 ^ nat (- ex)) / 2 ^ nat (- ex) = rat_of_int a"
      by simp
    with assms False True show ?thesis
      by (auto simp: toDouble_def Let_def ex_def [symmetric] round_half_even_1 split: if_splits)
  next
    case False
    with assms \<open>\<not> a \<le> 0\<close> show ?thesis
      by (auto simp: toDouble_def Let_def ex_def [symmetric] split: if_splits)
  qed
qed

lemma toDouble_sign:
  assumes "0 < b" "toDouble neg a b = Fin q"
  shows "if neg then q \<le> 0 else 0 \<le> q"
proof (cases "a \<le> 0")
  case True
  with assms show ?thesis by (simp add: toDouble_def)
next
  case False
  define ex where "ex = max (binexp a b) (- 1022) - 52"
  have "0 \<le> rat_of_int (round_half_even (a * 2 ^ nat (- ex)) b) / 2 ^ nat (- ex)"
    using False assms(1) by (simp add: round_half_even_nonneg)
  moreover have "0 \<le> rat_of_int (round_half_even a (b * 2 ^ nat ex)) * 2 ^ nat ex"
    using False assms(1) by (simp add: round_half_even_nonneg)
  ultimately show ?thesis
    using assms False
    by (auto simp: toDouble_def Let_def ex_def [symmetric] split: if_splits)
qed

lemma bitlen_le:
  assumes "0 < a" "a < 2 ^ n"
  shows "bitlen a \<le> int n"
proof (rule ccontr)
  assume "\<not> bitlen a \<le> int n"
  then have "n \<le> nat (bitlen a - 1)" by simp
  then have "(2::int) ^ n \<le> 2 ^ nat (bitlen a - 1)"
    by (intro power_increasing) simp_all
  with bitlen_bounds [OF assms(1)] assms(2) show False by simp
qed

lemma bitlen_1: "bitlen 1 = 1"
  by (simp add: bitlen.simps [of 1] bitlen.simps [of 0])

lemma toDouble_exact_integer:
  assumes "0 \<le> a" "a < 2 ^ 53"
  shows "toDouble neg a 1 = Fin (if neg then - rat_of_int a else rat_of_int a)"
proof (cases "a = 0")
  case True
  then show ?thesis by (simp add: toDouble_def)
next
  case False
  with assms have pos: "0 < a" by simp
  define ex where "ex = max (binexp a 1) (- 1022) - 52"
  have "binexp a 1 \<le> bitlen a - 1"
    by (simp add: binexp_def bitlen_1 Let_def)
  also have "\<dots> \<le> 52"
    using bitlen_le [OF pos assms(2)] by simp
  finally have ex: "ex \<le> 0" by (simp add: ex_def)
  have v: "rat_of_int (a * 2 ^ nat (- ex)) / 2 ^ nat (- ex) = rat_of_int a"
    by simp
  have "rat_of_int a < 2 ^ 53"
    using assms(2) by (metis of_int_less_numeral_power_cancel_iff)
  also have "\<dots> \<le> (2::rat) ^ 1024" by simp
  finally have "\<not> 2 ^ 1024 \<le> rat_of_int a" by simp
  with pos ex v show ?thesis
    unfolding toDouble_def Let_def ex_def [symmetric] round_half_even_1
    by (simp del: of_int_mult of_int_power)
qed



lemma jsadd_nat:
  assumes "a + b < 2 ^ 53"
  shows "jsadd (Fin (of_nat a)) (Fin (of_nat b)) = Fin (of_nat (a + b))"
proof -
  have e: "rat_of_nat a + rat_of_nat b = rat_of_int (int (a + b))"
    by simp
  have q: "quotient_of (rat_of_nat a + rat_of_nat b) = (int (a + b), 1)"
    unfolding e using quotient_of_int [of "int (a + b)"] by (simp add: Rat.of_int_def)
  have "int (a + b) < 2 ^ 53"
    using assms by (metis of_nat_less_numeral_power_cancel_iff)
  then have "toDouble False (int (a + b)) 1 = Fin (rat_of_int (int (a + b)))"
    using toDouble_exact_integer [of "int (a + b)" False] by simp
  then have "jsadd (Fin (of_nat a)) (Fin (of_nat b)) = Fin (rat_of_int (int (a + b)))"
    by (simp add: q del: of_nat_add)
  then show ?thesis by simp
qed

text \<open>What the parsers return on the strings used below.\<close>

lemma parseFloat_zero: "parseFloat ''0'' = Fin 0"
  by (simp add: parseFloat_def split_sign_def is_ws_def is_digit_def toDouble_def
      exponent_part_def digits_val_def digit_val_def)

lemma parseFloat_ex1: "parseFloat ''-7.09'' = toDouble True 709 100"
  by (simp add: parseFloat_def split_sign_def is_ws_def is_digit_def 
      exponent_part_def digits_val_def digit_val_def)

lemma parseFloat_ex2: "parseFloat ''110.92'' = toDouble False 11092 100"
  by (simp add: parseFloat_def split_sign_def is_ws_def is_digit_def 
      exponent_part_def digits_val_def digit_val_def)

lemma parseFloat_inf: "parseFloat ''Infinity'' = PInf"
  by (simp add: parseFloat_def split_sign_def is_ws_def)








lemma parseInt_cases: "parseInt inp = NaN \<or> (\<exists>neg a. parseInt inp = toDouble neg a 1)"
  by (auto simp: parseInt_def Let_def split: prod.splits)

lemma parseInt_integer: "parseInt inp = Fin q \<Longrightarrow> q \<in> \<int>"
  using parseInt_cases [of inp] toDouble_integer by auto

lemma truthy_iff: "truthy x \<longleftrightarrow> x \<noteq> NaN \<and> x \<noteq> Fin 0"
  by (cases x) simp_all

lemma nonneg_integer_Fin: "nonneg_integer (Fin q) \<longleftrightarrow> q \<in> \<int> \<and> 0 \<le> q"
  by (auto simp: nonneg_integer_def Ints_def)


section \<open>Properties of the aggregates\<close>

lemma distinct_DISTRICTS: "distinct DISTRICTS"
  by (simp add: DISTRICTS_def)

lemma length_DISTRICTS: "length DISTRICTS = 19"
  by (simp add: DISTRICTS_def)

lemma sum_count_distinct:
  "distinct ds \<Longrightarrow>
   sum_list (map (\<lambda>d. length (filter (\<lambda>x. f x = d) xs)) ds) = length (filter (\<lambda>x. f x \<in> set ds) xs)"
proof (induction ds)
  case Nil
  then show ?case by simp
next
  case (Cons d ds)
  have "length (filter (\<lambda>x. f x \<in> set (d # ds)) xs)
        = length (filter (\<lambda>x. f x = d) xs) + length (filter (\<lambda>x. f x \<in> set ds) xs)"
    using Cons.prems by (induction xs) auto
  with Cons show ?case by simp
qed

text \<open>
  With every district shown, the counts per district add up to the number of records
  whose district is one of the nineteen.
\<close>

lemma sum_byDistrict_all:
  "sum_list (map snd (byDistrict ''Semua'' xs)) = length (filter (\<lambda>s. district s \<in> set DISTRICTS) xs)"
  using sum_count_distinct [OF distinct_DISTRICTS, of district xs]
  by (simp add: byDistrict_def displayDistricts_def filteredSpots_def comp_def)

lemma sum_byType: "sum_list (map snd (byType d xs)) = totalCount d xs"
proof -
  have "length (filter (\<lambda>s. type' s = Wisata_Alam) ys)
        + (length (filter (\<lambda>s. type' s = Wisata_Air) ys)
           + length (filter (\<lambda>s. type' s = Wisata_Religi) ys)) = length ys"
    for ys :: "TouristSpot list"
  proof (induction ys)
    case Nil
    then show ?case by simp
  next
    case (Cons y ys)
    then show ?case by (cases "type' y") auto
  qed
  then show ?thesis
    by (simp add: byType_def TOURISM_TYPES_def totalCount_def)
qed

lemma length_filter_eq_iff: "length (filter P xs) = length xs \<longleftrightarrow> (\<forall>x\<in>set xs. P x)"
  by (metis filter_id_conv length_filter_less less_irrefl)

text \<open>
  The total capacity is the exact sum of the capacities when these are natural numbers
  and the sum is below \<open>2 ^ 53\<close>, where every addition is exact.
\<close>

lemma sum_capacities:
  "(\<forall>s\<in>set zs. capacity s = Fin (of_nat (c s))) \<Longrightarrow> n + sum_list (map c zs) < 2 ^ 53 \<Longrightarrow>
   foldl (\<lambda>acc curr. jsadd acc (capacity curr)) (Fin (of_nat n)) zs = Fin (of_nat (n + sum_list (map c zs)))"
proof (induction zs arbitrary: n)
  case Nil
  then show ?case by simp
next
  case (Cons z zs)
  from Cons.prems have z: "capacity z = Fin (of_nat (c z))" and b: "n + c z < 2 ^ 53"
    and r: "(n + c z) + sum_list (map c zs) < 2 ^ 53"
    by simp_all
  have "jsadd (Fin (of_nat n)) (capacity z) = Fin (of_nat (n + c z))"
    unfolding z using b by (rule jsadd_nat)
  with Cons.IH [of "n + c z"] Cons.prems(1) r show ?case
    by (simp add: add.assoc)
qed

lemma totalCapacity_exact:
  assumes "\<forall>s\<in>set zs. capacity s = Fin (of_nat (c s))" "sum_list (map c zs) < 2 ^ 53"
  shows "totalCapacity ''Semua'' zs = Fin (of_nat (sum_list (map c zs)))"
  using sum_capacities [of zs c 0] assms by (simp add: totalCapacity_def filteredSpots_def)

text \<open>
  C2, as amended. With the filter \<open>Semua\<close> and every record's district among the
  nineteen of \<open>DISTRICTS\<close>, the counts per type run over the three fixed types and add
  up to the total count, and the counts per district run over the nineteen districts
  and add up to the total count. (The list may be empty as well.)
\<close>

theorem aggregate_all_sums:
  assumes "\<forall>s\<in>set xs. district s \<in> set DISTRICTS"
  shows "map fst (byType ''Semua'' xs) = TOURISM_TYPES \<and>
         sum_list (map snd (byType ''Semua'' xs)) = totalCount ''Semua'' xs \<and>
         map fst (byDistrict ''Semua'' xs) = DISTRICTS \<and> length DISTRICTS = 19 \<and>
         sum_list (map snd (byDistrict ''Semua'' xs)) = totalCount ''Semua'' xs"
proof -
  have "filter (\<lambda>s. district s \<in> set DISTRICTS) xs = xs"
    using assms by simp
  then have "sum_list (map snd (byDistrict ''Semua'' xs)) = totalCount ''Semua'' xs"
    by (simp add: sum_byDistrict_all totalCount_def filteredSpots_def)
  moreover have "map fst (byType ''Semua'' xs) = TOURISM_TYPES"
    by (simp add: byType_def comp_def)
  moreover have "map fst (byDistrict ''Semua'' xs) = DISTRICTS"
    by (simp add: byDistrict_def displayDistricts_def comp_def)
  ultimately show ?thesis
    by (simp add: sum_byType length_DISTRICTS)
qed

text \<open>C2, an instance: two records, in Purwodadi and in Toroh.\<close>

theorem aggregate_all_sums_witness:
  "sum_list (map snd (byType ''Semua'' [sample_spot ''1'' ''Purwodadi'', sample_spot ''2'' ''Toroh''])) = 2 \<and>
   sum_list (map snd (byDistrict ''Semua'' [sample_spot ''1'' ''Purwodadi'', sample_spot ''2'' ''Toroh''])) = 2 \<and>
   totalCount ''Semua'' [sample_spot ''1'' ''Purwodadi'', sample_spot ''2'' ''Toroh''] = 2"
proof -
  have h: "\<forall>s\<in>set [sample_spot ''1'' ''Purwodadi'', sample_spot ''2'' ''Toroh'']. district s \<in> set DISTRICTS"
    by (simp add: sample_spot_def DISTRICTS_def)
  have "totalCount ''Semua'' [sample_spot ''1'' ''Purwodadi'', sample_spot ''2'' ''Toroh''] = 2"
    by (simp add: totalCount_def filteredSpots_def)
  with aggregate_all_sums [OF h] show ?thesis by simp
qed

text \<open>
  C2, as stated, fails: for the one-record list whose record is in the district
  \<open>Semarang\<close>, not one of the nineteen, the counts per district add up to 0 and the
  total count is 1.
\<close>

theorem aggregate_all_sums_counterexample:
  "[sample_spot ''1'' ''Semarang''] \<noteq> [] \<and>
   sum_list (map snd (byDistrict ''Semua'' [sample_spot ''1'' ''Semarang''])) = 0 \<and>
   totalCount ''Semua'' [sample_spot ''1'' ''Semarang''] = 1"
  by (simp add: byDistrict_def displayDistricts_def filteredSpots_def totalCount_def
      DISTRICTS_def sample_spot_def)

text \<open>
  C3. When the filter names a district \<open>D\<close> (anything but \<open>Semua\<close>), every record of
  the filtered list, from which all aggregates are computed, has the district \<open>D\<close>, and
  the counts per district are one entry, for \<open>D\<close>, whose count is the total count.
\<close>

theorem district_filter_single:
  assumes "D \<noteq> ''Semua''"
  shows "(\<forall>s\<in>set (filteredSpots D xs). district s = D) \<and>
         byDistrict D xs = [(D, totalCount D xs)]"
  using assms
  by (simp add: filteredSpots_def byDistrict_def displayDistricts_def totalCount_def)

text \<open>C3, an instance: the filter \<open>Toroh\<close> on two records.\<close>

theorem district_filter_single_witness:
  "map district (filteredSpots ''Toroh'' [sample_spot ''1'' ''Purwodadi'', sample_spot ''2'' ''Toroh''])
     = [''Toroh''] \<and>
   byDistrict ''Toroh'' [sample_spot ''1'' ''Purwodadi'', sample_spot ''2'' ''Toroh''] = [(''Toroh'', 1)]"
proof -
  have h: "''Toroh'' \<noteq> ''Semua''" by simp
  have "filteredSpots ''Toroh'' [sample_spot ''1'' ''Purwodadi'', sample_spot ''2'' ''Toroh'']
        = [sample_spot ''2'' ''Toroh'']"
    by (simp add: filteredSpots_def sample_spot_def)
  with district_filter_single [OF h, of "[sample_spot ''1'' ''Purwodadi'', sample_spot ''2'' ''Toroh'']"]
  show ?thesis by (simp add: totalCount_def sample_spot_def)
qed

text \<open>
  C8. With the filter \<open>Semua\<close>, a record whose district is not one of the nineteen,
  wherever it is in the list, adds one to the total count and changes no count per
  district; and it is counted in the total capacity: when the capacities are natural
  numbers with a sum below \<open>2 ^ 53\<close>, the total capacity is the total capacity of the
  other records plus the capacity of that record. The counts per district add up to the
  total count exactly when every record's district is one of the nineteen.
\<close>

theorem unknown_district_uncounted:
  "(district r \<notin> set DISTRICTS \<longrightarrow>
      totalCount ''Semua'' (xs @ r # ys) = Suc (totalCount ''Semua'' (xs @ ys)) \<and>
      byDistrict ''Semua'' (xs @ r # ys) = byDistrict ''Semua'' (xs @ ys) \<and>
      ((\<forall>s\<in>set (xs @ r # ys). capacity s = Fin (of_nat (c s))) \<and>
         sum_list (map c (xs @ r # ys)) < 2 ^ 53 \<longrightarrow>
         totalCapacity ''Semua'' (xs @ ys) = Fin (of_nat (sum_list (map c (xs @ ys)))) \<and>
         totalCapacity ''Semua'' (xs @ r # ys) = Fin (of_nat (sum_list (map c (xs @ ys)) + c r)))) \<and>
   (sum_list (map snd (byDistrict ''Semua'' zs)) = totalCount ''Semua'' zs
      \<longleftrightarrow> (\<forall>s\<in>set zs. district s \<in> set DISTRICTS))"
proof -
  have "byDistrict ''Semua'' (xs @ r # ys) = byDistrict ''Semua'' (xs @ ys)"
    if "district r \<notin> set DISTRICTS"
    using that by (auto simp: byDistrict_def displayDistricts_def filteredSpots_def)
  moreover have "sum_list (map snd (byDistrict ''Semua'' zs)) = totalCount ''Semua'' zs
      \<longleftrightarrow> (\<forall>s\<in>set zs. district s \<in> set DISTRICTS)"
    by (simp add: sum_byDistrict_all totalCount_def filteredSpots_def length_filter_eq_iff)
  moreover have "totalCapacity ''Semua'' (xs @ ys) = Fin (of_nat (sum_list (map c (xs @ ys)))) \<and>
         totalCapacity ''Semua'' (xs @ r # ys) = Fin (of_nat (sum_list (map c (xs @ ys)) + c r))"
    if h: "\<forall>s\<in>set (xs @ r # ys). capacity s = Fin (of_nat (c s))"
       "sum_list (map c (xs @ r # ys)) < 2 ^ 53"
  proof -
    from h have "\<forall>s\<in>set (xs @ ys). capacity s = Fin (of_nat (c s))"
      "sum_list (map c (xs @ ys)) < 2 ^ 53"
      by auto
    then have 1: "totalCapacity ''Semua'' (xs @ ys) = Fin (of_nat (sum_list (map c (xs @ ys))))"
      by (rule totalCapacity_exact)
    from h have "totalCapacity ''Semua'' (xs @ r # ys) = Fin (of_nat (sum_list (map c (xs @ r # ys))))"
      by (rule totalCapacity_exact)
    with 1 show ?thesis by (simp add: add_ac)
  qed
  ultimately show ?thesis
    by (simp add: totalCount_def totalCapacity_def filteredSpots_def)
qed

text \<open>
  C8, an instance: a record in \<open>Semarang\<close> in front of a record in Toroh, each of
  capacity 500.
\<close>

theorem unknown_district_uncounted_witness:
  "district (sample_spot ''9'' ''Semarang'') \<notin> set DISTRICTS \<and>
   totalCount ''Semua'' [sample_spot ''9'' ''Semarang'', sample_spot ''1'' ''Toroh''] = 2 \<and>
   totalCapacity ''Semua'' [sample_spot ''9'' ''Semarang'', sample_spot ''1'' ''Toroh''] = Fin 1000 \<and>
   totalCapacity ''Semua'' [sample_spot ''1'' ''Toroh''] = Fin 500 \<and>
   sum_list (map snd (byDistrict ''Semua'' [sample_spot ''9'' ''Semarang'', sample_spot ''1'' ''Toroh''])) = 1"
proof -
  have h: "district (sample_spot ''9'' ''Semarang'') \<notin> set DISTRICTS"
    by (simp add: sample_spot_def DISTRICTS_def)
  have t: "totalCount ''Semua'' [sample_spot ''1'' ''Toroh''] = 1"
    by (simp add: totalCount_def filteredSpots_def)
  have d: "district (sample_spot ''1'' ''Toroh'') \<in> set DISTRICTS"
    by (simp add: sample_spot_def DISTRICTS_def)
  have c: "\<forall>s\<in>set ([] @ sample_spot ''9'' ''Semarang'' # [sample_spot ''1'' ''Toroh'']).
             capacity s = Fin (of_nat ((\<lambda>_. 500) s))"
    "sum_list (map (\<lambda>_. 500::nat) ([] @ sample_spot ''9'' ''Semarang'' # [sample_spot ''1'' ''Toroh''])) < 2 ^ 53"
    by (simp_all add: sample_spot_def)
  from unknown_district_uncounted [where r = "sample_spot ''9'' ''Semarang''" and xs = "[]"
      and ys = "[sample_spot ''1'' ''Toroh'']" and zs = "[sample_spot ''1'' ''Toroh'']" and c = "\<lambda>_. 500"]
    h t d c
  show ?thesis by simp
qed

text \<open>
  C9. For every list and every filter, the filtered list is a subsequence of the
  stored list, in the stored order; and the stored list has the newest record first,
  since \<open>addSpot\<close> puts the new record in front.
\<close>

theorem filter_keeps_order:
  "subseq (filteredSpots d xs) xs \<and> spots (addSpot spot a) = spot # spots a"
  by (simp add: filteredSpots_def addSpot_def)

section \<open>Properties of the store and the form\<close>

text \<open>
  C10. A confirmed deletion keeps exactly the records whose id differs from the given
  one, in their order; no record with that id stays; and when no record has that id the
  state is the same as before.
\<close>

theorem delete_by_id:
  "spots (deleteSpot True i a) = filter (\<lambda>s. id' s \<noteq> i) (spots a) \<and>
   (\<forall>s\<in>set (spots (deleteSpot True i a)). id' s \<noteq> i) \<and>
   subseq (spots (deleteSpot True i a)) (spots a) \<and>
   (i \<notin> id' ` set (spots a) \<longrightarrow> deleteSpot True i a = a)"
proof -
  have "filter (\<lambda>s. id' s \<noteq> i) (spots a) = spots a" if "i \<notin> id' ` set (spots a)"
    using that by (auto simp: filter_id_conv)
  then show ?thesis
    by (auto simp: deleteSpot_def)
qed

text \<open>
  C10, an instance: deleting the id \<open>1\<close>, which two of four records have, and the id
  \<open>7\<close>, which none has.
\<close>

theorem delete_by_id_witness:
  "spots (deleteSpot True ''1''
      (sample_app [sample_spot ''1'' ''Toroh'', sample_spot ''2'' ''Gabus'', sample_spot ''1'' ''Brati'',
                   sample_spot ''3'' ''Geyer'']))
     = [sample_spot ''2'' ''Gabus'', sample_spot ''3'' ''Geyer''] \<and>
   ''7'' \<notin> id' ` set (spots (sample_app [sample_spot ''1'' ''Toroh'', sample_spot ''2'' ''Gabus''])) \<and>
   deleteSpot True ''7'' (sample_app [sample_spot ''1'' ''Toroh'', sample_spot ''2'' ''Gabus''])
     = sample_app [sample_spot ''1'' ''Toroh'', sample_spot ''2'' ''Gabus'']"
proof -
  have h: "''7'' \<notin> id' ` set (spots (sample_app [sample_spot ''1'' ''Toroh'', sample_spot ''2'' ''Gabus'']))"
    by (simp add: sample_app_def sample_spot_def)
  from delete_by_id [of "''1''" "sample_app [sample_spot ''1'' ''Toroh'', sample_spot ''2'' ''Gabus'',
          sample_spot ''1'' ''Brati'', sample_spot ''3'' ''Geyer'']"]
       delete_by_id [of "''7''" "sample_app [sample_spot ''1'' ''Toroh'', sample_spot ''2'' ''Gabus'']"] h
  show ?thesis by (simp add: sample_app_def sample_spot_def)
qed

text \<open>
  C7. A submission with an empty name or an empty village shows the prompt, leaves the
  form as it is and creates no record: the list of records is unchanged. Any other
  submission puts exactly one new record, with the name and the village of the form, in
  front of the list.
\<close>

theorem submit_requires_name_and_village:
  "(empty_field (form_name fd) \<or> empty_field (form_village fd) \<longrightarrow>
      handleSubmit now fd a = (fd, a\<lparr>alerts := alerts a @ [''Mohon lengkapi nama dan lokasi desa.'']\<rparr>)
      \<and> spots (snd (handleSubmit now fd a)) = spots a) \<and>
   (\<not> (empty_field (form_name fd) \<or> empty_field (form_village fd)) \<longrightarrow>
      (\<exists>spot. spots (snd (handleSubmit now fd a)) = spot # spots a \<and>
         form_name fd = Some (name spot) \<and> form_village fd = Some (village spot) \<and>
         id' spot = toString now))"
  by (auto simp: empty_field_def handleSubmit_def alert_def addSpot_def newSpot_def
      split: option.splits)

text \<open>
  C7, two instances: a form with a name and no village, and a form with both.
\<close>

theorem submit_requires_name_and_village_witness:
  "empty_field (form_village (sample_form ''Bledug Kuwu'' [])) \<and>
   spots (snd (handleSubmit 7 (sample_form ''Bledug Kuwu'' []) (sample_app [sample_spot ''1'' ''Toroh''])))
     = [sample_spot ''1'' ''Toroh''] \<and>
   \<not> empty_field (form_name (sample_form ''Bledug Kuwu'' ''Kuwu'')) \<and>
   \<not> empty_field (form_village (sample_form ''Bledug Kuwu'' ''Kuwu'')) \<and>
   map name (spots (snd (handleSubmit 7 (sample_form ''Bledug Kuwu'' ''Kuwu'') (sample_app []))))
     = [''Bledug Kuwu'']"
proof -
  have e1: "empty_field (form_village (sample_form ''Bledug Kuwu'' []))"
    by (simp add: empty_field_def sample_form_def)
  have e2: "\<not> (empty_field (form_name (sample_form ''Bledug Kuwu'' ''Kuwu''))
               \<or> empty_field (form_village (sample_form ''Bledug Kuwu'' ''Kuwu'')))"
    by (simp add: empty_field_def sample_form_def)
  have n: "form_name (sample_form ''Bledug Kuwu'' ''Kuwu'') = Some ''Bledug Kuwu''"
    by (simp add: sample_form_def)
  from submit_requires_name_and_village
         [of "sample_form ''Bledug Kuwu'' []" 7 "sample_app [sample_spot ''1'' ''Toroh'']"] e1
  have a: "spots (snd (handleSubmit 7 (sample_form ''Bledug Kuwu'' [])
              (sample_app [sample_spot ''1'' ''Toroh'']))) = [sample_spot ''1'' ''Toroh'']"
    by (simp add: sample_app_def)
  from submit_requires_name_and_village [of "sample_form ''Bledug Kuwu'' ''Kuwu''" 7 "sample_app []"] e2
  obtain spot where
    "spots (snd (handleSubmit 7 (sample_form ''Bledug Kuwu'' ''Kuwu'') (sample_app []))) = spot # spots (sample_app [])"
    "form_name (sample_form ''Bledug Kuwu'' ''Kuwu'') = Some (name spot)"
    by blast
  with n have b: "map name (spots (snd (handleSubmit 7 (sample_form ''Bledug Kuwu'' ''Kuwu'') (sample_app []))))
     = [''Bledug Kuwu'']"
    by (simp add: sample_app_def)
  from e1 e2 a b show ?thesis by simp
qed





section \<open>Properties of the map component\<close>

subsection \<open>The position of a marker\<close>

text \<open>Every centre of the table has a latitude and a longitude that are truthy.\<close>

lemma centres_truthy:
  "map_of DISTRICT_COORDINATES k = Some c \<Longrightarrow> truthy (fst c) \<and> truthy (snd c)"
proof -
  assume "map_of DISTRICT_COORDINATES k = Some c"
  then have "(k, c) \<in> set DISTRICT_COORDINATES"
    by (rule map_of_SomeD)
  moreover have "\<forall>(k, c)\<in>set DISTRICT_COORDINATES. truthy (fst c) \<and> truthy (snd c)"
    by (simp add: DISTRICT_COORDINATES_def literal_def toDouble_truthy)
  ultimately show ?thesis by blast
qed

lemma get_property_Undefined:
  "get_property k = Undefined \<longleftrightarrow> k \<notin> fst ` set DISTRICT_COORDINATES \<and> k \<notin> set Object_prototype"
proof (cases "map_of DISTRICT_COORDINATES k")
  case None
  then have "k \<notin> fst ` set DISTRICT_COORDINATES"
    by (simp add: map_of_eq_None_iff)
  with None show ?thesis
    by (simp add: get_property_def)
next
  case (Some c)
  then have "(k, c) \<in> set DISTRICT_COORDINATES"
    by (rule map_of_SomeD)
  then have "k \<in> fst ` set DISTRICT_COORDINATES"
    by force
  with Some show ?thesis
    by (simp add: get_property_def)
qed

lemma keys_DISTRICT_COORDINATES: "map fst DISTRICT_COORDINATES = DISTRICTS"
  by (simp add: DISTRICT_COORDINATES_def DISTRICTS_def)

lemma sample_markerPosition_centre:
  "markerPosition (sample_spot i ''Purwodadi'') = Inr (Some (literal True 70867 10000, literal False 1109157 10000))"
proof -
  have c: "map_of DISTRICT_COORDINATES ''Purwodadi'' = Some (literal True 70867 10000, literal False 1109157 10000)"
    by (simp add: DISTRICT_COORDINATES_def)
  from centres_truthy [OF c] c show ?thesis
    by (simp add: markerPosition_def sample_spot_def parseFloat_zero get_property_def place_def)
qed

lemma sample_markerPosition_inherited:
  "markerPosition (sample_spot i ''constructor'') = Inl TypeError"
  by (simp add: markerPosition_def sample_spot_def parseFloat_zero get_property_def
      DISTRICT_COORDINATES_def Object_prototype_def)

lemma sample_markerPosition_unknown:
  "markerPosition (sample_spot i ''Semarang'') = Inr None"
  by (simp add: markerPosition_def sample_spot_def parseFloat_zero get_property_def
      DISTRICT_COORDINATES_def Object_prototype_def place_def)

text \<open>
  C1, as amended. The position of a record's marker is resolved in this order: if the
  latitude and the longitude both parse to numbers that are truthy, that is neither
  \<open>NaN\<close> nor zero (an infinity is one), the marker is at exactly those; otherwise, if
  the district is a key of the table of centres, whose keys are the nineteen districts,
  the marker is at that centre; otherwise, if the district names no property of the
  table at all, neither own nor inherited from \<open>Object.prototype\<close>, there is no marker
  and no error. A coordinate that is missing, empty or \<open>0\<close> parses to zero and so
  counts as absent.
\<close>

theorem marker_position_policy:
  "(let lat = parseFloat (str_or (latitude spot) ''0'');
        lng = parseFloat (str_or (longitude spot) ''0'')
    in (truthy lat \<and> truthy lng \<longrightarrow> markerPosition spot = Inr (Some (lat, lng))) \<and>
       (\<not> (truthy lat \<and> truthy lng) \<longrightarrow>
          (\<forall>c. map_of DISTRICT_COORDINATES (district spot) = Some c \<longrightarrow> markerPosition spot = Inr (Some c)) \<and>
          (district spot \<notin> set (map fst DISTRICT_COORDINATES) \<and> district spot \<notin> set Object_prototype
             \<longrightarrow> markerPosition spot = Inr None))) \<and>
   (\<forall>x. truthy x \<longleftrightarrow> x \<noteq> NaN \<and> x \<noteq> Fin 0) \<and>
   (\<forall>c\<in>{None, Some [], Some ''0''}. \<not> truthy (parseFloat (str_or c ''0''))) \<and>
   map fst DISTRICT_COORDINATES = DISTRICTS"
proof -
  define lat where "lat = parseFloat (str_or (latitude spot) ''0'')"
  define lng where "lng = parseFloat (str_or (longitude spot) ''0'')"
  have a: "markerPosition spot = Inr (Some (lat, lng))" if "truthy lat \<and> truthy lng"
    using that by (simp add: markerPosition_def lat_def lng_def place_def)
  have b: "markerPosition spot = Inr (Some c)"
    if "\<not> (truthy lat \<and> truthy lng)" "map_of DISTRICT_COORDINATES (district spot) = Some c" for c
    using that centres_truthy [OF that(2)]
    by (auto simp: markerPosition_def lat_def lng_def place_def get_property_def)
  have c: "markerPosition spot = Inr None"
    if "\<not> (truthy lat \<and> truthy lng)" "district spot \<notin> set (map fst DISTRICT_COORDINATES)"
       "district spot \<notin> set Object_prototype"
  proof -
    from that(2,3) have "get_property (district spot) = Undefined"
      by (simp add: get_property_Undefined)
    with that(1) show ?thesis
      by (auto simp: markerPosition_def lat_def lng_def place_def)
  qed
  have d: "\<forall>c\<in>{None, Some [], Some ''0''}. \<not> truthy (parseFloat (str_or c ''0''))"
    by (simp add: parseFloat_zero)
  from a b c d show ?thesis
    unfolding Let_def lat_def [symmetric] lng_def [symmetric]
    by (simp add: truthy_iff keys_DISTRICT_COORDINATES)
qed

text \<open>
  C1, three instances: explicit coordinates, empty coordinates in Purwodadi, and no
  coordinates in a district that the table does not have.
\<close>

theorem marker_position_policy_witness:
  "markerPosition (sample_spot_at ''1'' ''Purwodadi'' ''-7.09'' ''110.92'')
     = Inr (Some (toDouble True 709 100, toDouble False 11092 100)) \<and>
   markerPosition (sample_spot_at ''2'' ''Purwodadi'' [] [])
     = Inr (Some (literal True 70867 10000, literal False 1109157 10000)) \<and>
   markerPosition (sample_spot ''3'' ''Semarang'') = Inr None"
proof -
  have t: "truthy (toDouble True 709 100)" "truthy (toDouble False 11092 100)"
    by (simp_all add: toDouble_truthy)
  have k: "map_of DISTRICT_COORDINATES ''Purwodadi'' = Some (literal True 70867 10000, literal False 1109157 10000)"
    by (simp add: DISTRICT_COORDINATES_def)
  have u: "''Semarang'' \<notin> fst ` set DISTRICT_COORDINATES" "''Semarang'' \<notin> set Object_prototype"
    by (simp_all add: DISTRICT_COORDINATES_def Object_prototype_def)
  from marker_position_policy [of "sample_spot_at ''1'' ''Purwodadi'' ''-7.09'' ''110.92''"] t
  have 1: "markerPosition (sample_spot_at ''1'' ''Purwodadi'' ''-7.09'' ''110.92'')
     = Inr (Some (toDouble True 709 100, toDouble False 11092 100))"
    by (simp add: sample_spot_at_def sample_spot_def parseFloat_ex1 parseFloat_ex2)
  from marker_position_policy [of "sample_spot_at ''2'' ''Purwodadi'' [] []"] k
  have 2: "markerPosition (sample_spot_at ''2'' ''Purwodadi'' [] [])
     = Inr (Some (literal True 70867 10000, literal False 1109157 10000))"
    by (simp add: sample_spot_at_def sample_spot_def parseFloat_zero)
  from marker_position_policy [of "sample_spot ''3'' ''Semarang''"] u
  have 3: "markerPosition (sample_spot ''3'' ''Semarang'') = Inr None"
    by (simp add: sample_spot_def parseFloat_zero)
  from 1 2 3 show ?thesis by simp
qed

text \<open>
  C1, as stated, fails: the latitude \<open>Infinity\<close> parses to a number that is not
  finite, the district is a key of the table, and yet the marker is at the parsed
  coordinates and not at the centre of the district.
\<close>

theorem marker_position_policy_counterexample:
  "markerPosition (sample_spot_at ''1'' ''Purwodadi'' ''Infinity'' ''110.92'')
     = Inr (Some (PInf, toDouble False 11092 100)) \<and>
   parseFloat ''Infinity'' = PInf \<and> \<not> is_finite PInf \<and>
   map_of DISTRICT_COORDINATES ''Purwodadi'' = Some (literal True 70867 10000, literal False 1109157 10000) \<and>
   literal True 70867 10000 \<noteq> PInf"
proof -
  have t: "truthy (toDouble False 11092 100)"
    by (simp add: toDouble_truthy)
  then have "markerPosition (sample_spot_at ''1'' ''Purwodadi'' ''Infinity'' ''110.92'')
     = Inr (Some (PInf, toDouble False 11092 100))"
    by (simp add: markerPosition_def sample_spot_at_def sample_spot_def parseFloat_inf parseFloat_ex2 place_def)
  moreover have "literal True 70867 10000 \<noteq> PInf"
    by (simp add: literal_def toDouble_def Let_def)
  moreover have "map_of DISTRICT_COORDINATES ''Purwodadi'' = Some (literal True 70867 10000, literal False 1109157 10000)"
    by (simp add: DISTRICT_COORDINATES_def)
  ultimately show ?thesis
    by (simp add: parseFloat_inf)
qed

subsection \<open>One run of the synchronisation\<close>

lemma add_markers_eq:
  "add_markers xs s =
     (raised xs,
      s\<lparr>mapInstanceRef := map_option (\<lambda>mp. mp\<lparr>layers := layers mp @ created (lastId s) xs\<rparr>) (mapInstanceRef s),
        markersRef := markersRef s @ created (lastId s) xs,
        lastId := lastId s + length (created (lastId s) xs)\<rparr>)"
proof (induction xs arbitrary: s)
  case Nil
  show ?case by (cases "mapInstanceRef s") (simp_all add: option.map_ident)
next
  case (Cons x xs)
  show ?case
  proof (cases "markerPosition x")
    case (Inl e)
    then show ?thesis by (cases "mapInstanceRef s") simp_all
  next
    case (Inr po)
    show ?thesis
    proof (cases po)
      case None
      with Inr Cons show ?thesis by simp
    next
      case (Some p)
      with Inr Cons [of "add_marker x p s"] show ?thesis
        by (cases "mapInstanceRef s") (simp_all add: add_marker_def Let_def)
    qed
  qed
qed

lemma created_ids:
  "m \<in> set (created k xs) \<Longrightarrow> k < leaflet_id m \<and> leaflet_id m \<le> k + length (created k xs)"
proof (induction xs arbitrary: k)
  case Nil
  then show ?case by simp
next
  case (Cons x xs)
  show ?case
  proof (cases "markerPosition x")
    case (Inl e)
    with Cons.prems show ?thesis by simp
  next
    case (Inr po)
    show ?thesis
    proof (cases po)
      case None
      with Inr Cons show ?thesis by simp
    next
      case (Some p)
      with Inr Cons.prems
      consider "leaflet_id m = Suc k" | "m \<in> set (created (Suc k) xs)"
        by auto
      then show ?thesis
      proof cases
        case 1
        with Inr Some show ?thesis by simp
      next
        case 2
        from Cons.IH [OF 2] Inr Some show ?thesis by simp
      qed
    qed
  qed
qed

lemma created_fresh: "j \<le> k \<Longrightarrow> j \<notin> leaflet_id ` set (created k xs)"
proof
  assume "j \<le> k" and "j \<in> leaflet_id ` set (created k xs)"
  then obtain m where "m \<in> set (created k xs)" "leaflet_id m = j" by auto
  with created_ids [of m k xs] \<open>j \<le> k\<close> show False by simp
qed

lemma created_distinct: "distinct (map leaflet_id (created k xs))"
proof (induction xs arbitrary: k)
  case Nil
  then show ?case by simp
next
  case (Cons x xs)
  have "Suc k \<notin> leaflet_id ` set (created (Suc k) xs)"
    by (rule created_fresh) simp
  with Cons show ?case
    by (simp split: sum.splits option.splits)
qed

lemma shown_created: "map shown (created k xs) = map shown (created j xs)"
  by (induction xs arbitrary: k j) (auto simp: shown_def split: sum.splits option.splits)

lemma shown_created_derived:
  "raised xs = None \<Longrightarrow> map shown (created k xs) = derived_markers xs"
  by (induction xs arbitrary: k)
     (auto simp: shown_def derived_markers_def derive_def List.map_filter_simps
           split: sum.splits option.splits)

lemma clear_markers:
  "foldl (\<lambda>t m. marker_remove m t) s ms =
     s\<lparr>mapInstanceRef :=
         map_option (\<lambda>mp. mp\<lparr>layers := filter (\<lambda>x. leaflet_id x \<notin> leaflet_id ` set ms) (layers mp)\<rparr>)
           (mapInstanceRef s)\<rparr>"
proof (induction ms arbitrary: s)
  case Nil
  show ?case by (cases "mapInstanceRef s") simp_all
next
  case (Cons m ms)
  have "foldl (\<lambda>t m. marker_remove m t) s (m # ms) = foldl (\<lambda>t m. marker_remove m t) (marker_remove m s) ms"
    by simp
  also have "\<dots> = (marker_remove m s)\<lparr>mapInstanceRef :=
         map_option (\<lambda>mp. mp\<lparr>layers := filter (\<lambda>x. leaflet_id x \<notin> leaflet_id ` set ms) (layers mp)\<rparr>)
           (mapInstanceRef (marker_remove m s))\<rparr>"
    by (rule Cons)
  also have "\<dots> = s\<lparr>mapInstanceRef :=
         map_option (\<lambda>mp. mp\<lparr>layers := filter (\<lambda>x. leaflet_id x \<notin> leaflet_id ` set (m # ms)) (layers mp)\<rparr>)
           (mapInstanceRef s)\<rparr>"
    by (cases "mapInstanceRef s") (simp_all add: marker_remove_def conj_commute)
  finally show ?case .
qed

lemma sync_unmounted: "mapInstanceRef s = None \<or> \<not> w \<Longrightarrow> sync w xs s = (None, s)"
  by (auto simp: sync_def)

lemma sync_mounted:
  assumes "mapInstanceRef s = Some mp"
  shows "sync True xs s =
    (raised xs,
     \<lparr>mapInstanceRef = Some (mp\<lparr>
          layers := filter (\<lambda>x. leaflet_id x \<notin> leaflet_id ` set (markersRef s)) (layers mp)
                      @ created (lastId s) xs,
          view := (if raised xs = None
                   then (if created (lastId s) xs \<noteq> [] then fitBounds (map latlng (created (lastId s) xs))
                         else defaultView)
                   else view mp)\<rparr>),
      markersRef = created (lastId s) xs,
      lastId = lastId s + length (created (lastId s) xs)\<rparr>)"
proof (cases "raised xs")
  case None
  with assms show ?thesis
    by (simp add: sync_def clear_markers add_markers_eq update_view_def)
next
  case (Some e)
  with assms show ?thesis
    by (simp add: sync_def clear_markers add_markers_eq)
qed

lemma inv_clears:
  assumes "component_inv s" "mapInstanceRef s = Some mp"
  shows "filter (\<lambda>x. leaflet_id x \<notin> leaflet_id ` set (markersRef s)) (layers mp) = []"
  using assms by (auto simp: component_inv_def on_surface_def filter_empty_conv)

lemma sync_mounted_inv:
  assumes "component_inv s" "mapInstanceRef s = Some mp"
  shows "sync True xs s =
    (raised xs,
     \<lparr>mapInstanceRef = Some (mp\<lparr>
          layers := created (lastId s) xs,
          view := (if raised xs = None
                   then (if created (lastId s) xs \<noteq> [] then fitBounds (map latlng (created (lastId s) xs))
                         else defaultView)
                   else view mp)\<rparr>),
      markersRef = created (lastId s) xs,
      lastId = lastId s + length (created (lastId s) xs)\<rparr>)"
  by (simp add: sync_mounted [OF assms(2)] inv_clears [OF assms])

text \<open>
  The invariant holds at the start and is kept by the two effects and by the cleanup.
\<close>

lemma inv_initial: "component_inv initialMapComponent"
  by (simp add: component_inv_def initialMapComponent_def on_surface_def)

lemma inv_mount: "component_inv s \<Longrightarrow> component_inv (mount w s)"
  by (auto simp: component_inv_def mount_def on_surface_def)

lemma inv_cleanup: "component_inv s \<Longrightarrow> component_inv (cleanup s)"
  by (auto simp: component_inv_def cleanup_def on_surface_def)

lemma inv_sync:
  assumes "component_inv s"
  shows "component_inv (snd (sync w xs s))"
proof (cases "mapInstanceRef s = None \<or> \<not> w")
  case True
  with assms show ?thesis by (simp add: sync_unmounted)
next
  case False
  then obtain mp where m: "mapInstanceRef s = Some mp" and w: "w" by auto
  have "leaflet_id x \<le> lastId s + length (created (lastId s) xs)" if "x \<in> set (created (lastId s) xs)" for x
    using created_ids [OF that] by simp
  with w show ?thesis
    by (simp add: sync_mounted_inv [OF assms m] component_inv_def on_surface_def)
qed

lemma latlng_shown: "map latlng ms = map fst (map shown ms)"
  by (simp add: shown_def comp_def)

text \<open>
  On a map that is mounted, a run leaves on the map exactly the markers it created, each
  with a fresh identifier, none of them twice and none from before; and when the run
  ends without an exception these show what the records of the list derive.
\<close>

lemma sync_replaces_markers:
  assumes "component_inv s" "mapInstanceRef s = Some mp"
  shows "on_surface (snd (sync True xs s)) = markersRef (snd (sync True xs s)) \<and>
         distinct (map leaflet_id (on_surface (snd (sync True xs s)))) \<and>
         (\<forall>m\<in>set (on_surface (snd (sync True xs s))).
             leaflet_id m \<notin> leaflet_id ` set (markersRef s) \<and> leaflet_id m \<notin> leaflet_id ` set (on_surface s)) \<and>
         (fst (sync True xs s) = None \<longrightarrow> map shown (on_surface (snd (sync True xs s))) = derived_markers xs)"
proof -
  have f: "leaflet_id m \<notin> leaflet_id ` set (markersRef s) \<and> leaflet_id m \<notin> leaflet_id ` set (on_surface s)"
    if "m \<in> set (created (lastId s) xs)" for m
  proof -
    from created_ids [OF that] have "lastId s < leaflet_id m" by simp
    with assms(1) show ?thesis
      by (fastforce simp: component_inv_def)
  qed
  show ?thesis
    using f by (simp add: sync_mounted_inv [OF assms] on_surface_def created_distinct shown_created_derived)
qed

text \<open>
  C4 fails on a list whose first record has no coordinates and the district
  \<open>constructor\<close>, and whose second record is in Purwodadi. \<open>constructor\<close> is no key of
  the table, but the table inherits a property of that name, so the guard of the
  fallback holds and the destructuring assignment raises \<open>TypeError\<close>. The run ends
  there, after the old markers were removed: the map is left with no marker, while the
  second record derives one, at the centre of Purwodadi.
\<close>

theorem sync_stops_at_inherited_key:
  "sync True [sample_spot ''1'' ''constructor'', sample_spot ''2'' ''Purwodadi''] mounted_component
     = (Some TypeError, mounted_component) \<and>
   on_surface mounted_component = [] \<and>
   derived_markers [sample_spot ''1'' ''constructor'', sample_spot ''2'' ''Purwodadi'']
     = [((literal True 70867 10000, literal False 1109157 10000), ''Bledug Kuwu'', ''Purwodadi'', Wisata_Alam)]"
proof -
  have m: "mapInstanceRef mounted_component = Some \<lparr>tileLayers = [''https://{s}.tile.openstreetmap.org/{z}/{x}/{y}.png''],
                  layers = [], view = defaultView\<rparr>"
    by (simp add: mounted_component_def mount_def initialMapComponent_def)
  have i: "component_inv mounted_component"
    unfolding mounted_component_def by (intro inv_mount inv_initial)
  have "sync True [sample_spot ''1'' ''constructor'', sample_spot ''2'' ''Purwodadi''] mounted_component
     = (Some TypeError, mounted_component)"
    by (simp add: sync_mounted_inv [OF i m] sample_markerPosition_inherited)
       (simp add: mounted_component_def mount_def initialMapComponent_def)
  moreover have "on_surface mounted_component = []"
    by (simp add: on_surface_def m)
  moreover have "derived_markers [sample_spot ''1'' ''constructor'', sample_spot ''2'' ''Purwodadi'']
     = [((literal True 70867 10000, literal False 1109157 10000), ''Bledug Kuwu'', ''Purwodadi'', Wisata_Alam)]"
    by (simp add: derived_markers_def derive_def List.map_filter_simps
          sample_markerPosition_inherited sample_markerPosition_centre)
       (simp add: sample_spot_def)
  ultimately show ?thesis by simp
qed

text \<open>
  C5. Two runs in succession with the same list end the same way as one run (with the
  same exception, if any), and leave as many markers in \<open>markersRef\<close>, markers on the
  map that show the same, and the same view. After a run on a mounted map that ends
  without an exception, the view is the bounds of the markers when there are markers
  and the default view when there are none.
\<close>

theorem sync_idempotent:
  assumes "component_inv s"
  shows "fst (sync w xs (snd (sync w xs s))) = fst (sync w xs s) \<and>
         length (markersRef (snd (sync w xs (snd (sync w xs s))))) = length (markersRef (snd (sync w xs s))) \<and>
         map shown (on_surface (snd (sync w xs (snd (sync w xs s))))) = map shown (on_surface (snd (sync w xs s))) \<and>
         current_view (snd (sync w xs (snd (sync w xs s)))) = current_view (snd (sync w xs s)) \<and>
         (w \<and> mapInstanceRef s \<noteq> None \<and> fst (sync w xs s) = None \<longrightarrow>
            current_view (snd (sync w xs s))
              = Some (if markersRef (snd (sync w xs s)) = [] then defaultView
                      else fitBounds (map latlng (markersRef (snd (sync w xs s))))))"
proof (cases "mapInstanceRef s = None \<or> \<not> w")
  case True
  then show ?thesis by (auto simp: sync_unmounted)
next
  case False
  then obtain mp where m: "mapInstanceRef s = Some mp" and w: "w" by auto
  define k where "k = lastId s"
  define s1 where "s1 = snd (sync True xs s)"
  define mp1 where "mp1 = mp\<lparr>layers := created k xs,
          view := (if raised xs = None
                   then (if created k xs \<noteq> [] then fitBounds (map latlng (created k xs))
                         else defaultView)
                   else view mp)\<rparr>"
  have s1: "s1 = \<lparr>mapInstanceRef = Some mp1, markersRef = created k xs, lastId = k + length (created k xs)\<rparr>"
    and r1: "fst (sync True xs s) = raised xs"
    by (simp_all add: s1_def mp1_def k_def sync_mounted_inv [OF assms m])
  have i1: "component_inv s1"
    unfolding s1_def using assms by (rule inv_sync)
  have m1: "mapInstanceRef s1 = Some mp1" by (simp add: s1)
  define j where "j = lastId s1"
  have sh: "map shown (created j xs) = map shown (created k xs)"
    by (rule shown_created)
  then have len: "length (created j xs) = length (created k xs)"
    using length_map by metis
  have ll: "map latlng (created j xs) = map latlng (created k xs)"
    using sh by (simp add: latlng_shown)
  have ne: "created j xs \<noteq> [] \<longleftrightarrow> created k xs \<noteq> []"
    using len by auto
  note e2 = sync_mounted_inv [OF i1 m1, of xs, folded j_def]
  have v1: "view mp1 = (if raised xs = None
                   then (if created k xs \<noteq> [] then fitBounds (map latlng (created k xs))
                         else defaultView)
                   else view mp)"
    by (simp add: mp1_def)
  have "current_view (snd (sync True xs s1)) =
          Some (if raised xs = None
                then (if created j xs \<noteq> [] then fitBounds (map latlng (created j xs)) else defaultView)
                else view mp1)"
    by (simp add: e2 current_view_def)
  also have "\<dots> = Some (view mp1)"
    by (simp add: v1 ll ne)
  also have "\<dots> = current_view s1"
    by (simp add: current_view_def m1)
  finally have "current_view (snd (sync True xs s1)) = current_view s1" .
  moreover have "fst (sync True xs s1) = raised xs"
    "markersRef (snd (sync True xs s1)) = created j xs"
    "on_surface (snd (sync True xs s1)) = created j xs"
    by (simp_all add: e2 on_surface_def)
  moreover have "markersRef s1 = created k xs" "on_surface s1 = created k xs"
    by (simp_all add: s1 on_surface_def mp1_def)
  moreover have "current_view s1
      = Some (if markersRef s1 = [] then defaultView else fitBounds (map latlng (markersRef s1)))"
    if "raised xs = None"
    using that by (simp add: s1 current_view_def mp1_def)
  ultimately show ?thesis
    using w r1 sh len by (simp add: s1_def)
qed

text \<open>C5, an instance: one record in Purwodadi, on a freshly mounted map.\<close>

theorem sync_idempotent_witness:
  "length (markersRef (snd (sync True [sample_spot ''2'' ''Purwodadi''] mounted_component))) = 1 \<and>
   length (markersRef (snd (sync True [sample_spot ''2'' ''Purwodadi'']
       (snd (sync True [sample_spot ''2'' ''Purwodadi''] mounted_component))))) = 1 \<and>
   current_view (snd (sync True [sample_spot ''2'' ''Purwodadi'']
       (snd (sync True [sample_spot ''2'' ''Purwodadi''] mounted_component))))
     = Some (fitBounds [(literal True 70867 10000, literal False 1109157 10000)])"
proof -
  have m: "mapInstanceRef mounted_component = Some \<lparr>tileLayers = [''https://{s}.tile.openstreetmap.org/{z}/{x}/{y}.png''],
                  layers = [], view = defaultView\<rparr>"
    by (simp add: mounted_component_def mount_def initialMapComponent_def)
  have i: "component_inv mounted_component"
    unfolding mounted_component_def by (intro inv_mount inv_initial)
  have 1: "length (markersRef (snd (sync True [sample_spot ''2'' ''Purwodadi''] mounted_component))) = 1"
    "current_view (snd (sync True [sample_spot ''2'' ''Purwodadi''] mounted_component))
       = Some (fitBounds [(literal True 70867 10000, literal False 1109157 10000)])"
    by (simp_all add: sync_mounted_inv [OF i m] sample_markerPosition_centre current_view_def)
  with sync_idempotent [OF i, of True "[sample_spot ''2'' ''Purwodadi'']"] show ?thesis
    by simp
qed

end
